theory Spec2Isabelle
  imports Main "HOL-Library.Char_ord" "HOL-Library.List_Lexorder"
begin

section \<open>Python values reaching the generator\<close>

text \<open>
  \<^verbatim>\<open>json.load\<close> delivers an arbitrary JSON value. Numbers written with a fraction or an
  exponent become Python floats; they are kept opaque (\<open>pyfloat\<close>), and what the builtins
  \<^verbatim>\<open>int\<close> and \<^verbatim>\<open>str\<close> make of them is a parameter of the model (\<open>builtins\<close> below).
  An object is the list of its key/value pairs; \<^verbatim>\<open>json.load\<close> keeps one value per key, and
  lookup is \<open>map_of\<close>. Strings are lists of 8-bit characters.
\<close>

typedecl pyfloat

datatype json =
    JNull
  | JBool bool
  | JInt int
  | JFloat pyfloat
  | JStr string
  | JList "json list"
  | JObj "(string \<times> json) list"

text \<open>The exceptions that occur; \<open>Exception m\<close> is \<^verbatim>\<open>raise Exception(m)\<close>.\<close>

datatype py_error =
    KeyError
  | ValueError
  | TypeError
  | IndexError
  | OverflowError
  | Exception string

text \<open>
  The parts of the builtins that the source calls and that are not determined by the source:
  \<^verbatim>\<open>int(s)\<close> for a string (\<open>None\<close> is \<^verbatim>\<open>ValueError\<close>), \<^verbatim>\<open>int(f)\<close> for a float, and
  \<^verbatim>\<open>str(v)\<close> for a float, a list or a dict.
\<close>

record builtins =
  int_of_str :: "string \<Rightarrow> int option"
  int_of_float :: "pyfloat \<Rightarrow> py_error + int"
  repr_of :: "json \<Rightarrow> string"

subsection \<open>Decimal numerals\<close>

definition digit_char :: "nat \<Rightarrow> char" where
  "digit_char d = ''0123456789'' ! (d mod 10)"

fun dec :: "nat \<Rightarrow> string" where
  "dec n = (if n < 10 then [digit_char n] else dec (n div 10) @ [digit_char (n mod 10)])"

declare dec.simps [simp del]

text \<open>Zero-padded to at least \<open>w\<close> digits, as \<^verbatim>\<open>%02d\<close> and \<^verbatim>\<open>%04d\<close> do.\<close>

definition zero_pad :: "nat \<Rightarrow> nat \<Rightarrow> string" where
  "zero_pad w n = replicate (w - length (dec n)) (CHR ''0'') @ dec n"

definition show_int :: "int \<Rightarrow> string" where
  "show_int i = (if i < 0 then CHR ''-'' # dec (nat (- i)) else dec (nat i))"

subsection \<open>Subscription, \<^verbatim>\<open>int\<close>, \<^verbatim>\<open>str\<close>\<close>

text \<open>\<^verbatim>\<open>v[k]\<close> for a string key \<open>k\<close>: only a dict accepts it.\<close>

definition getitem :: "json \<Rightarrow> string \<Rightarrow> py_error + json" where
  "getitem v k =
     (case v of
        JObj kvs \<Rightarrow> (case map_of kvs k of None \<Rightarrow> Inl KeyError | Some x \<Rightarrow> Inr x)
      | _ \<Rightarrow> Inl TypeError)"

definition py_int :: "builtins \<Rightarrow> json \<Rightarrow> py_error + int" where
  "py_int L v =
     (case v of
        JInt n \<Rightarrow> Inr n
      | JBool b \<Rightarrow> Inr (if b then 1 else 0)
      | JStr s \<Rightarrow> (case int_of_str L s of None \<Rightarrow> Inl ValueError | Some n \<Rightarrow> Inr n)
      | JFloat f \<Rightarrow> int_of_float L f
      | _ \<Rightarrow> Inl TypeError)"

definition py_str :: "builtins \<Rightarrow> json \<Rightarrow> string" where
  "py_str L v =
     (case v of
        JStr s \<Rightarrow> s
      | JInt n \<Rightarrow> show_int n
      | JBool b \<Rightarrow> (if b then ''True'' else ''False'')
      | JNull \<Rightarrow> ''None''
      | _ \<Rightarrow> repr_of L v)"

section \<open>The random source\<close>

text \<open>
  The module \<^verbatim>\<open>random\<close> is a process-wide generator. It is modelled as the stream of its
  raw draws, passed through every call that consumes one: \<open>randbelow n\<close> returns a number
  below \<open>n\<close> and the rest of the stream.
\<close>

type_synonym rng = "nat \<Rightarrow> nat"

definition randbelow :: "nat \<Rightarrow> rng \<Rightarrow> nat \<times> rng" where
  "randbelow n g = (g 0 mod n, \<lambda>i. g (Suc i))"

text \<open>
  \<^verbatim>\<open>random.choice(seq)\<close>: \<^verbatim>\<open>len(seq)\<close> fails on a value without a length, an empty
  sequence is \<^verbatim>\<open>IndexError\<close>, and the element at the drawn index is returned. A string
  gives one of its characters. A dict has a length, but its keys are strings, so the integer
  index is a \<^verbatim>\<open>KeyError\<close> (the length is tested first, as CPython does from 3.11 on).
\<close>

definition random_choice :: "json \<Rightarrow> rng \<Rightarrow> (py_error + json) \<times> rng" where
  "random_choice seq g =
     (case seq of
        JList xs \<Rightarrow>
          (if xs = [] then (Inl IndexError, g)
           else (case randbelow (length xs) g of (i, g') \<Rightarrow> (Inr (xs ! i), g')))
      | JStr s \<Rightarrow>
          (if s = [] then (Inl IndexError, g)
           else (case randbelow (length s) g of (i, g') \<Rightarrow> (Inr (JStr [s ! i]), g')))
      | JObj kvs \<Rightarrow>
          (if kvs = [] then (Inl IndexError, g)
           else (Inl KeyError, snd (randbelow (length kvs) g)))
      | _ \<Rightarrow> (Inl TypeError, g))"

text \<open>\<^verbatim>\<open>random.randint(a, b)\<close>: an empty range is \<^verbatim>\<open>ValueError\<close>.\<close>

definition randint :: "int \<Rightarrow> int \<Rightarrow> rng \<Rightarrow> (py_error + int) \<times> rng" where
  "randint a b g =
     (if a \<le> b
      then (case randbelow (nat (b - a + 1)) g of (i, g') \<Rightarrow> (Inr (a + int i), g'))
      else (Inl ValueError, g))"

section \<open>Naive datetimes\<close>

text \<open>
  A naive \<^verbatim>\<open>datetime\<close> is a point on the proleptic Gregorian calendar: the whole seconds
  since 0001-01-01 00:00:00 and the microsecond. Adding a \<^verbatim>\<open>timedelta\<close> of whole seconds
  adds to the first; a result outside the years 1 to 9999 is \<^verbatim>\<open>OverflowError\<close>.
\<close>

record datetime =
  dt_seconds :: int
  dt_microsecond :: nat

definition MAXORDINAL :: int where
  "MAXORDINAL = 3652059"

definition dt_add_seconds :: "datetime \<Rightarrow> int \<Rightarrow> py_error + datetime" where
  "dt_add_seconds t n =
     (if 0 \<le> dt_seconds t + n \<and> dt_seconds t + n < MAXORDINAL * 86400
      then Inr (t\<lparr>dt_seconds := dt_seconds t + n\<rparr>)
      else Inl OverflowError)"

text \<open>The calendar fields, by the day-number conversion of CPython's \<^verbatim>\<open>_ord2ymd\<close>.\<close>

definition DAYS_BEFORE_MONTH :: "nat \<Rightarrow> int" where
  "DAYS_BEFORE_MONTH m = [0, 0, 31, 59, 90, 120, 151, 181, 212, 243, 273, 304, 334] ! m"

definition DAYS_IN_MONTH :: "nat \<Rightarrow> int" where
  "DAYS_IN_MONTH m = [0, 31, 28, 31, 30, 31, 30, 31, 31, 30, 31, 30, 31] ! m"

definition ord2ymd :: "int \<Rightarrow> int \<times> nat \<times> int" where
  "ord2ymd ordinal =
     (let n = ordinal - 1;
          n400 = n div 146097; n = n mod 146097;
          n100 = n div 36524; n = n mod 36524;
          n4 = n div 1461; n = n mod 1461;
          n1 = n div 365; n = n mod 365;
          year = n400 * 400 + 1 + n100 * 100 + n4 * 4 + n1
      in if n1 = 4 \<or> n100 = 4 then (year - 1, 12, 31)
         else
           let leapyear = (n1 = 3 \<and> (n4 \<noteq> 24 \<or> n100 = 3));
               month = nat ((n + 50) div 32);
               preceding = DAYS_BEFORE_MONTH month + (if 2 < month \<and> leapyear then 1 else 0)
           in if n < preceding
              then let month' = month - 1;
                       preceding' = preceding
                         - (DAYS_IN_MONTH month' + (if month' = 2 \<and> leapyear then 1 else 0))
                   in (year, month', n - preceding' + 1)
              else (year, month, n - preceding + 1))"

definition dt_year :: "datetime \<Rightarrow> nat" where
  "dt_year t = nat (fst (ord2ymd (dt_seconds t div 86400 + 1)))"

definition dt_month :: "datetime \<Rightarrow> nat" where
  "dt_month t = fst (snd (ord2ymd (dt_seconds t div 86400 + 1)))"

definition dt_day :: "datetime \<Rightarrow> nat" where
  "dt_day t = nat (snd (snd (ord2ymd (dt_seconds t div 86400 + 1))))"

definition dt_hour :: "datetime \<Rightarrow> nat" where
  "dt_hour t = nat ((dt_seconds t mod 86400) div 3600)"

definition dt_minute :: "datetime \<Rightarrow> nat" where
  "dt_minute t = nat ((dt_seconds t mod 3600) div 60)"

definition dt_second :: "datetime \<Rightarrow> nat" where
  "dt_second t = nat (dt_seconds t mod 60)"

text \<open>
  \<^verbatim>\<open>strftime\<close>, for the directives the source uses; any other character pair after
  \<^verbatim>\<open>%\<close> is copied. \<^verbatim>\<open>%Y\<close> is the year with century as the library documents it, in
  four digits (a C library that does not pad prints a year below 1000 shorter); the other
  fields have two digits.
\<close>

definition directive :: "datetime \<Rightarrow> char \<Rightarrow> string" where
  "directive t c =
     (if c = CHR ''Y'' then zero_pad 4 (dt_year t)
      else if c = CHR ''m'' then zero_pad 2 (dt_month t)
      else if c = CHR ''d'' then zero_pad 2 (dt_day t)
      else if c = CHR ''H'' then zero_pad 2 (dt_hour t)
      else if c = CHR ''M'' then zero_pad 2 (dt_minute t)
      else if c = CHR ''S'' then zero_pad 2 (dt_second t)
      else [CHR ''%'', c])"

fun strftime :: "datetime \<Rightarrow> string \<Rightarrow> string" where
  "strftime t [] = []"
| "strftime t [c] = [c]"
| "strftime t (c # d # cs) =
     (if c = CHR ''%'' then directive t d @ strftime t cs else c # strftime t (d # cs))"

section \<open>The class \<^verbatim>\<open>GenerateSequenceOfItems\<close>\<close>

text \<open>
  \<open>self\<close>: the path given on the command line and the clock reading taken by the
  constructor (\<^verbatim>\<open>datetime.now()\<close>).
\<close>

record generator =
  file_path :: string
  starting_timestamp :: datetime

subsection \<open>\<^verbatim>\<open>check_file_format\<close>\<close>

text \<open>\<^verbatim>\<open>s.split(c)\<close> with an explicit separator: never empty, one more piece than separators.\<close>

fun split :: "char \<Rightarrow> string \<Rightarrow> string list" where
  "split c [] = [[]]"
| "split c (x # xs) =
     (if x = c then [] # split c xs
      else (case split c xs of [] \<Rightarrow> [[x]] | w # ws \<Rightarrow> (x # w) # ws))"

definition upper_char :: "char \<Rightarrow> char" where
  "upper_char c =
     (case map_of (zip ''abcdefghijklmnopqrstuvwxyz'' ''ABCDEFGHIJKLMNOPQRSTUVWXYZ'') c of
        None \<Rightarrow> c | Some u \<Rightarrow> u)"

definition upper :: "string \<Rightarrow> string" where
  "upper s = map upper_char s"

definition check_file_format :: "generator \<Rightarrow> bool" where
  "check_file_format self =
     (if upper (last (split (CHR ''.'') (file_path self))) \<noteq> ''JSON'' then False else True)"

subsection \<open>\<^verbatim>\<open>parse_config\<close>\<close>

text \<open>
  What \<^verbatim>\<open>open\<close> followed by \<^verbatim>\<open>json.load\<close> does with a path: the file cannot be opened, its
  text is not JSON, or a value is loaded.
\<close>

datatype file_outcome = CannotOpen | NotJson | Loaded json

type_synonym filesystem = "string \<Rightarrow> file_outcome"

definition file_exception :: string where
  "file_exception = ''Please provide valid json file.''"

text \<open>
  The condition of the source is \<^verbatim>\<open>self.check_file_format\<close>, the bound method itself and not
  its result. A method object is true, whatever the method would return.
\<close>

definition method_truth :: "(generator \<Rightarrow> bool) \<Rightarrow> generator \<Rightarrow> bool" where
  "method_truth m self = True"

definition parse_config :: "filesystem \<Rightarrow> generator \<Rightarrow> py_error + json" where
  "parse_config fs self =
     (if method_truth check_file_format self
      then (case fs (file_path self) of
              Loaded config_dict \<Rightarrow> Inr config_dict
            | _ \<Rightarrow> Inl (Exception file_exception))
      else Inl (Exception file_exception))"

subsection \<open>\<^verbatim>\<open>get_duration\<close>, \<^verbatim>\<open>get_rate\<close>\<close>

text \<open>
  The handlers build an \<^verbatim>\<open>Exception\<close> and drop it, so the method falls off its end and
  returns \<^verbatim>\<open>None\<close>: the result is an \<open>int option\<close>. An exception that no handler names
  leaves the method.
\<close>

definition get_duration :: "builtins \<Rightarrow> json \<Rightarrow> py_error + int option" where
  "get_duration L config =
     (case (case getitem config ''duration'' of Inl e \<Rightarrow> Inl e | Inr v \<Rightarrow> py_int L v) of
        Inr n \<Rightarrow> Inr (Some n)
      | Inl KeyError \<Rightarrow> Inr None
      | Inl ValueError \<Rightarrow> Inr None
      | Inl e \<Rightarrow> Inl e)"

text \<open>The body of the outer \<^verbatim>\<open>try\<close> of \<^verbatim>\<open>get_rate\<close>.\<close>

definition rate_range :: "builtins \<Rightarrow> json \<Rightarrow> rng \<Rightarrow> (py_error + int) \<times> rng" where
  "rate_range L config g =
     (case getitem config ''rate'' of Inl e \<Rightarrow> (Inl e, g) | Inr r1 \<Rightarrow>
     (case getitem r1 ''min'' of Inl e \<Rightarrow> (Inl e, g) | Inr rate_min \<Rightarrow>
     (case getitem config ''rate'' of Inl e \<Rightarrow> (Inl e, g) | Inr r2 \<Rightarrow>
     (case getitem r2 ''max'' of Inl e \<Rightarrow> (Inl e, g) | Inr rate_max \<Rightarrow>
     (case py_int L rate_min of Inl e \<Rightarrow> (Inl e, g) | Inr a \<Rightarrow>
     (case py_int L rate_max of Inl e \<Rightarrow> (Inl e, g) | Inr b \<Rightarrow>
        randint a b g))))))"

text \<open>The inner \<^verbatim>\<open>try\<close>: its bare \<^verbatim>\<open>except\<close> takes every exception.\<close>

definition rate_plain :: "builtins \<Rightarrow> json \<Rightarrow> int option" where
  "rate_plain L config =
     (case (case getitem config ''rate'' of Inl e \<Rightarrow> Inl e | Inr v \<Rightarrow> py_int L v) of
        Inr n \<Rightarrow> Some n
      | Inl e \<Rightarrow> None)"

definition get_rate :: "builtins \<Rightarrow> json \<Rightarrow> rng \<Rightarrow> (py_error + int option) \<times> rng" where
  "get_rate L config g =
     (case rate_range L config g of
        (Inr rate, g') \<Rightarrow> (Inr (Some rate), g')
      | (Inl ValueError, g') \<Rightarrow> (Inr None, g')
      | (Inl KeyError, g') \<Rightarrow> (Inr (rate_plain L config), g')
      | (Inl TypeError, g') \<Rightarrow> (Inr (rate_plain L config), g')
      | (Inl e, g') \<Rightarrow> (Inl e, g'))"

subsection \<open>\<^verbatim>\<open>get_colour_attribute\<close>, \<^verbatim>\<open>get_material_attribute\<close>\<close>

text \<open>
  The two methods differ in the key only. \<open>attribute_draw\<close> is the body of their \<^verbatim>\<open>try\<close>;
  \<open>except_KeyError\<close> is the handler, which returns \<^verbatim>\<open>None\<close>.
\<close>

definition attribute_draw :: "builtins \<Rightarrow> string \<Rightarrow> json \<Rightarrow> rng \<Rightarrow> (py_error + string) \<times> rng" where
  "attribute_draw L name config g =
     (case getitem config ''attributes'' of Inl e \<Rightarrow> (Inl e, g) | Inr attributes \<Rightarrow>
     (case getitem attributes name of Inl e \<Rightarrow> (Inl e, g) | Inr attribute \<Rightarrow>
     (case getitem attribute ''values'' of Inl e \<Rightarrow> (Inl e, g) | Inr value_list \<Rightarrow>
     (case random_choice value_list g of
        (Inl e, g') \<Rightarrow> (Inl e, g')
      | (Inr v, g') \<Rightarrow> (Inr (py_str L v), g')))))"

definition except_KeyError :: "(py_error + string) \<times> rng \<Rightarrow> (py_error + string option) \<times> rng" where
  "except_KeyError r =
     (case r of
        (Inr s, g) \<Rightarrow> (Inr (Some s), g)
      | (Inl KeyError, g) \<Rightarrow> (Inr None, g)
      | (Inl e, g) \<Rightarrow> (Inl e, g))"

definition get_colour_attribute :: "builtins \<Rightarrow> json \<Rightarrow> rng \<Rightarrow> (py_error + string option) \<times> rng" where
  "get_colour_attribute L config g = except_KeyError (attribute_draw L ''colour'' config g)"

definition get_material_attribute :: "builtins \<Rightarrow> json \<Rightarrow> rng \<Rightarrow> (py_error + string option) \<times> rng" where
  "get_material_attribute L config g = except_KeyError (attribute_draw L ''material'' config g)"

subsection \<open>\<^verbatim>\<open>build_base_dict\<close>\<close>

text \<open>An output dict: \<^verbatim>\<open>id\<close> and \<^verbatim>\<open>timestamp\<close> always, \<^verbatim>\<open>colour\<close> and \<^verbatim>\<open>material\<close> when set.\<close>

record item =
  item_id :: int
  timestamp :: string
  colour :: "string option"
  material :: "string option"

definition build_base_dict :: "generator \<Rightarrow> int \<Rightarrow> py_error + item" where
  "build_base_dict self ident =
     (case dt_add_seconds (starting_timestamp self) (ident - 1) of
        Inl e \<Rightarrow> Inl e
      | Inr ts \<Rightarrow>
          Inr \<lparr>item_id = ident, timestamp = strftime ts ''%Y-%d-%m, %H:%M:%S'',
               colour = None, material = None\<rparr>)"

subsection \<open>\<^verbatim>\<open>generate_sequence\<close>\<close>

text \<open>\<^verbatim>\<open>if colour:\<close> for a value that is \<^verbatim>\<open>None\<close> or a string.\<close>

definition truthy :: "string option \<Rightarrow> bool" where
  "truthy v = (case v of None \<Rightarrow> False | Some s \<Rightarrow> s \<noteq> [])"

text \<open>The variables the two loops change.\<close>

record loop_state =
  id_calculator :: int
  sequence_list :: "item list"
  random_state :: rng

definition loop_body :: "builtins \<Rightarrow> generator \<Rightarrow> json \<Rightarrow> loop_state \<Rightarrow> py_error + loop_state" where
  "loop_body L self config st =
     (case build_base_dict self (id_calculator st) of Inl e \<Rightarrow> Inl e | Inr sequence0 \<Rightarrow>
     (case get_colour_attribute L config (random_state st) of (Inl e, g1) \<Rightarrow> Inl e | (Inr col, g1) \<Rightarrow>
     (case get_material_attribute L config g1 of (Inl e, g2) \<Rightarrow> Inl e | (Inr mat, g2) \<Rightarrow>
        (let sequence1 = (if truthy col then sequence0\<lparr>colour := col\<rparr> else sequence0);
             sequence2 = (if truthy mat then sequence1\<lparr>material := mat\<rparr> else sequence1)
         in Inr \<lparr>id_calculator = id_calculator st + 1,
                 sequence_list = sequence_list st @ [sequence2],
                 random_state = g2\<rparr>))))"

text \<open>
  \<^verbatim>\<open>for _ in range(n): body\<close>, the loop variable unused: \<^verbatim>\<open>range(None)\<close> is a
  \<^verbatim>\<open>TypeError\<close>, a negative \<open>n\<close> gives no iteration, an exception ends the loop.
\<close>

fun repeat :: "nat \<Rightarrow> ('s \<Rightarrow> py_error + 's) \<Rightarrow> 's \<Rightarrow> py_error + 's" where
  "repeat 0 body s = Inr s"
| "repeat (Suc n) body s = (case body s of Inl e \<Rightarrow> Inl e | Inr s' \<Rightarrow> repeat n body s')"

definition for_range :: "int option \<Rightarrow> ('s \<Rightarrow> py_error + 's) \<Rightarrow> 's \<Rightarrow> py_error + 's" where
  "for_range n body s =
     (case n of None \<Rightarrow> Inl TypeError | Some k \<Rightarrow> repeat (nat k) body s)"

text \<open>The two nested loops, from the empty list and \<^verbatim>\<open>id_calculator = 1\<close>.\<close>

definition build_sequence_list ::
  "builtins \<Rightarrow> generator \<Rightarrow> json \<Rightarrow> int option \<Rightarrow> int option \<Rightarrow> rng \<Rightarrow> py_error + loop_state" where
  "build_sequence_list L self config duration rate g =
     for_range duration (for_range rate (loop_body L self config))
       \<lparr>id_calculator = 1, sequence_list = [], random_state = g\<rparr>"

text \<open>
  \<open>generated\<close> is the method up to the end of the loops: the value of \<^verbatim>\<open>sequence_list\<close>
  before it is sorted, or the exception that ended the run.
\<close>

definition generated :: "builtins \<Rightarrow> filesystem \<Rightarrow> generator \<Rightarrow> rng \<Rightarrow> py_error + item list" where
  "generated L fs self g =
     (case parse_config fs self of Inl e \<Rightarrow> Inl e | Inr config \<Rightarrow>
     (case get_duration L config of Inl e \<Rightarrow> Inl e | Inr duration \<Rightarrow>
     (case get_rate L config g of (Inl e, g1) \<Rightarrow> Inl e | (Inr rate, g1) \<Rightarrow>
     (case build_sequence_list L self config duration rate g1 of
        Inl e \<Rightarrow> Inl e
      | Inr st \<Rightarrow> Inr (sequence_list st)))))"

text \<open>
  The whole method. The result is the list of dicts printed, one \<^verbatim>\<open>json.dumps\<close> line each
  and in this order, or the exception that ended the run; printing starts after the sort,
  so a run that raises has printed nothing. \<^verbatim>\<open>list.sort\<close> is stable, as \<open>sort_key\<close> is, and
  Python compares strings character by character.
\<close>

definition generate_sequence :: "builtins \<Rightarrow> filesystem \<Rightarrow> generator \<Rightarrow> rng \<Rightarrow> py_error + item list" where
  "generate_sequence L fs self g =
     (case generated L fs self g of
        Inl e \<Rightarrow> Inl e
      | Inr xs \<Rightarrow> Inr (sort_key timestamp xs))"


text \<open>
  The records a result holds, none when the run raised. For \<open>generate_sequence\<close> these are
  the lines on standard output.
\<close>

definition records_of :: "py_error + item list \<Rightarrow> item list" where
  "records_of r = (case r of Inl e \<Rightarrow> [] | Inr xs \<Rightarrow> xs)"

section \<open>Notions of the specification\<close>



text \<open>
  ``The configuration declares \<^verbatim>\<open>attributes.<name>.values\<close>'': the configuration is an
  object with an object under \<^verbatim>\<open>attributes\<close>, that one has an object under the attribute's
  name, and this one has the key \<^verbatim>\<open>values\<close>; the result is what is stored there.
\<close>

definition declared_values :: "string \<Rightarrow> json \<Rightarrow> json option" where
  "declared_values name config =
     (case config of
        JObj kvs \<Rightarrow>
          (case map_of kvs ''attributes'' of
             Some (JObj attrs) \<Rightarrow>
               (case map_of attrs name of
                  Some (JObj attr) \<Rightarrow> map_of attr ''values''
                | _ \<Rightarrow> None)
           | _ \<Rightarrow> None)
      | _ \<Rightarrow> None)"

text \<open>
  The timestamp a record with a given id must carry: the start time plus \<open>id - 1\<close> seconds,
  written year, day, month, then the time of day.
\<close>

definition year_day_month :: "datetime \<Rightarrow> string" where
  "year_day_month t =
     zero_pad 4 (dt_year t) @ ''-'' @ zero_pad 2 (dt_day t) @ ''-'' @ zero_pad 2 (dt_month t)
       @ '', '' @ zero_pad 2 (dt_hour t) @ '':'' @ zero_pad 2 (dt_minute t)
       @ '':'' @ zero_pad 2 (dt_second t)"

text \<open>
  A record is \<open>stamped\<close> when its timestamp is the one its id calls for.
\<close>

definition stamped :: "generator \<Rightarrow> item \<Rightarrow> bool" where
  "stamped self x =
     (case dt_add_seconds (starting_timestamp self) (item_id x - 1) of
        Inl e \<Rightarrow> False
      | Inr ts \<Rightarrow> timestamp x = year_day_month ts)"

section \<open>Concrete inputs for the examples\<close>

text \<open>
  The examples draw the raw numbers 0, 1, 2, ... from the random source, read one file,
  and hold no float, no number written as a string and no list or dict inside a pool, so
  that no field of \<open>example_builtins\<close> decides anything in them.
\<close>

definition example_builtins :: builtins where
  "example_builtins =
     \<lparr>int_of_str = (\<lambda>s. None), int_of_float = (\<lambda>f. Inl ValueError), repr_of = (\<lambda>v. ''?'')\<rparr>"

definition counting_rng :: rng where
  "counting_rng i = i"

definition single_file :: "string \<Rightarrow> json \<Rightarrow> filesystem" where
  "single_file path content p = (if p = path then Loaded content else CannotOpen)"

text \<open>2023-01-31 23:59:59 (day number 738551), and 2023-12-01 13:01:20 (day number 738855).\<close>

definition end_of_january :: datetime where
  "end_of_january = \<lparr>dt_seconds = 738550 * 86400 + 86399, dt_microsecond = 0\<rparr>"

definition december_first :: datetime where
  "december_first = \<lparr>dt_seconds = 738854 * 86400 + 46880, dt_microsecond = 0\<rparr>"


text \<open>
  \<^verbatim>\<open>{"duration": 2, "rate": 1, "attributes": {"colour": {"values": ["red", ""]}}}\<close>
\<close>

definition two_slots_config :: json where
  "two_slots_config =
     JObj [(''duration'', JInt 2), (''rate'', JInt 1),
           (''attributes'', JObj [(''colour'', JObj [(''values'', JList [JStr ''red'', JStr ''''])])])]"

text \<open>\<^verbatim>\<open>{"duration": 1, "rate": 1, "attributes": {"colour": {"values": []}}}\<close>\<close>

definition empty_colour_config :: json where
  "empty_colour_config =
     JObj [(''duration'', JInt 1), (''rate'', JInt 1),
           (''attributes'', JObj [(''colour'', JObj [(''values'', JList [])])])]"


text \<open>\<^verbatim>\<open>{"duration": 1, "rate": 1}\<close>, and the same without its duration.\<close>

definition plain_config :: json where
  "plain_config = JObj [(''duration'', JInt 1), (''rate'', JInt 1)]"

definition no_duration_config :: json where
  "no_duration_config = JObj [(''rate'', JInt 1)]"

text \<open>
  \<^verbatim>\<open>{"duration": 1, "rate": 1, "attributes": {"colour": {"values": []}, "material": {"values": []}}}\<close>
\<close>

definition empty_pools_config :: json where
  "empty_pools_config =
     JObj [(''duration'', JInt 1), (''rate'', JInt 1),
           (''attributes'', JObj [(''colour'', JObj [(''values'', JList [])]),
                                  (''material'', JObj [(''values'', JList [])])])]"

text \<open>
  \<^verbatim>\<open>{"duration": 1, "rate": 1, "attributes": {"colour": {"values": ["red", ""]},\<close>
  \<^verbatim>\<open> "material": {"values": ["", "paper"]}}}\<close>
\<close>

definition blank_pools_config :: json where
  "blank_pools_config =
     JObj [(''duration'', JInt 1), (''rate'', JInt 1),
           (''attributes'', JObj [(''colour'', JObj [(''values'', JList [JStr ''red'', JStr ''''])]),
                                  (''material'', JObj [(''values'', JList [JStr '''', JStr ''paper''])])])]"

text \<open>
  \<^verbatim>\<open>{"duration": 1, "rate": {"min": 2, "max": 2}, "attributes": {"colour": {"values": ["red", "blue"]}}}\<close>
  and the same with \<^verbatim>\<open>"rate": 2\<close>, as key/value lists.
\<close>

definition range_rate_pairs :: "(string \<times> json) list" where
  "range_rate_pairs =
     [(''duration'', JInt 1), (''rate'', JObj [(''min'', JInt 2), (''max'', JInt 2)]),
      (''attributes'', JObj [(''colour'', JObj [(''values'', JList [JStr ''red'', JStr ''blue''])])])]"

definition plain_rate_pairs :: "(string \<times> json) list" where
  "plain_rate_pairs =
     [(''duration'', JInt 1), (''rate'', JInt 2),
      (''attributes'', JObj [(''colour'', JObj [(''values'', JList [JStr ''red'', JStr ''blue''])])])]"

text \<open>A random source whose every raw draw is \<open>k\<close>.\<close>

definition constant_rng :: "nat \<Rightarrow> rng" where
  "constant_rng k i = k"

section \<open>The extension check\<close>









section \<open>The loops\<close>

lemma strftime_format: "strftime t ''%Y-%d-%m, %H:%M:%S'' = year_day_month t"
  by (simp add: directive_def year_day_month_def)

lemma build_base_dict_Inr:
  "build_base_dict self k = Inr b \<longleftrightarrow>
     (\<exists>ts. dt_add_seconds (starting_timestamp self) (k - 1) = Inr ts
        \<and> b = \<lparr>item_id = k, timestamp = year_day_month ts, colour = None, material = None\<rparr>)"
  unfolding build_base_dict_def strftime_format
  by (auto split: sum.splits)

lemma loop_body_Inr_cases:
  assumes "loop_body L self config st = Inr st'"
  obtains ts col g1 mat g2 where
    "dt_add_seconds (starting_timestamp self) (id_calculator st - 1) = Inr ts"
    "get_colour_attribute L config (random_state st) = (Inr col, g1)"
    "get_material_attribute L config g1 = (Inr mat, g2)"
    "st' = \<lparr>id_calculator = id_calculator st + 1,
            sequence_list = sequence_list st @
              [\<lparr>item_id = id_calculator st, timestamp = year_day_month ts,
                colour = (if truthy col then col else None),
                material = (if truthy mat then mat else None)\<rparr>],
            random_state = g2\<rparr>"
  using assms
  by (auto simp: loop_body_def build_base_dict_Inr Let_def split: sum.splits prod.splits if_splits)

lemma loop_body_Inr:
  assumes "loop_body L self config st = Inr st'"
  shows "id_calculator st' = id_calculator st + 1
     \<and> (\<exists>x. sequence_list st' = sequence_list st @ [x] \<and> item_id x = id_calculator st
            \<and> stamped self x)"
  using assms by (rule loop_body_Inr_cases) (simp add: stamped_def)

lemma repeat_loop_body_Inr:
  "repeat n (loop_body L self config) s = Inr s' \<Longrightarrow>
     id_calculator s' = id_calculator s + int n
     \<and> (\<exists>new. sequence_list s' = sequence_list s @ new
           \<and> map item_id new = map (\<lambda>i. id_calculator s + int i) [0..<n]
           \<and> (\<forall>x\<in>set new. stamped self x))"
proof (induction n arbitrary: s)
  case 0
  then show ?case by simp
next
  case (Suc n)
  from Suc.prems obtain s1 where s1: "loop_body L self config s = Inr s1"
    and rest: "repeat n (loop_body L self config) s1 = Inr s'"
    by (auto split: sum.splits)
  from loop_body_Inr [OF s1] obtain x where
    id1: "id_calculator s1 = id_calculator s + 1"
    and x: "sequence_list s1 = sequence_list s @ [x]" "item_id x = id_calculator s" "stamped self x"
    by blast
  from Suc.IH [OF rest] obtain new where
    id': "id_calculator s' = id_calculator s1 + int n"
    and new: "sequence_list s' = sequence_list s1 @ new"
      "map item_id new = map (\<lambda>i. id_calculator s1 + int i) [0..<n]"
      "\<forall>x\<in>set new. stamped self x"
    by blast
  have "map item_id (x # new) = map (\<lambda>i. id_calculator s + int i) [0..<Suc n]"
    using x(2) new(2) id1 by (simp add: map_upt_Suc del: upt_Suc)
  moreover have "sequence_list s' = sequence_list s @ (x # new)"
    using x(1) new(1) by simp
  moreover have "\<forall>y\<in>set (x # new). stamped self y"
    using x(3) new(3) by simp
  moreover have "id_calculator s' = id_calculator s + int (Suc n)"
    using id' id1 by simp
  ultimately show ?case by blast
qed

lemma repeat_add:
  "repeat (m + n) f s = (case repeat m f s of Inl e \<Rightarrow> Inl e | Inr s' \<Rightarrow> repeat n f s')"
  by (induction m arbitrary: s) (auto split: sum.splits)

lemma repeat_mult: "repeat m (repeat n f) s = repeat (m * n) f s"
  by (induction m arbitrary: s) (auto simp: repeat_add split: sum.splits)

lemma build_sequence_list_Some:
  "build_sequence_list L self config (Some d) (Some r) g =
     repeat (nat d * nat r) (loop_body L self config)
       \<lparr>id_calculator = 1, sequence_list = [], random_state = g\<rparr>"
proof -
  have "for_range (Some r) (loop_body L self config) = repeat (nat r) (loop_body L self config)"
    by (rule ext) (simp add: for_range_def)
  then show ?thesis
    by (simp add: build_sequence_list_def for_range_def repeat_mult)
qed

lemma map_upt_upto: "map (\<lambda>i. 1 + int i) [0..<n] = [1..int n]"
proof (induction n)
  case 0
  then show ?case by simp
next
  case (Suc n)
  have "[1..int (Suc n)] = [1..int n] @ [int n + 1]"
    using upto_rec2 [of 1 "int n + 1"] by (simp add: add.commute)
  with Suc show ?case by (simp add: add.commute)
qed

lemma nat_mult_max: "int (nat d * nat r) = max d 0 * max r 0"
  by (simp add: max_def)

lemma loop_body_returns:
  assumes col: "\<forall>g. \<exists>c g'. get_colour_attribute L config g = (Inr c, g')"
    and mat: "\<forall>g. \<exists>m g'. get_material_attribute L config g = (Inr m, g')"
    and lo: "0 \<le> dt_seconds (starting_timestamp self) + (id_calculator s - 1)"
    and hi: "dt_seconds (starting_timestamp self) + (id_calculator s - 1) < MAXORDINAL * 86400"
  shows "\<exists>s'. loop_body L self config s = Inr s'"
proof -
  from lo hi obtain b where b: "build_base_dict self (id_calculator s) = Inr b"
    by (auto simp: build_base_dict_def dt_add_seconds_def)
  from col obtain c g1 where c: "get_colour_attribute L config (random_state s) = (Inr c, g1)"
    by blast
  from mat obtain m g2 where m: "get_material_attribute L config g1 = (Inr m, g2)"
    by blast
  show ?thesis
    by (simp add: loop_body_def b c m Let_def)
qed

lemma repeat_loop_body_returns:
  assumes col: "\<forall>g. \<exists>c g'. get_colour_attribute L config g = (Inr c, g')"
    and mat: "\<forall>g. \<exists>m g'. get_material_attribute L config g = (Inr m, g')"
  shows "0 \<le> dt_seconds (starting_timestamp self) + (id_calculator s - 1) \<Longrightarrow>
     dt_seconds (starting_timestamp self) + (id_calculator s - 1) + int n \<le> MAXORDINAL * 86400 \<Longrightarrow>
     \<exists>s'. repeat n (loop_body L self config) s = Inr s'"
proof (induction n arbitrary: s)
  case 0
  then show ?case by simp
next
  case (Suc n)
  from loop_body_returns [OF col mat Suc.prems(1)] Suc.prems(2)
  obtain s1 where s1: "loop_body L self config s = Inr s1" by auto
  from loop_body_Inr [OF s1] have id1: "id_calculator s1 = id_calculator s + 1" by simp
  have "\<exists>s'. repeat n (loop_body L self config) s1 = Inr s'"
    using Suc.prems by (intro Suc.IH) (simp_all add: id1)
  then show ?case by (simp add: s1)
qed

text \<open>Unfolding a loop over a numeral, and the definitions a concrete run evaluates.\<close>

lemma repeat_numeral:
  "repeat (numeral k) body s =
     (case body s of Inl e \<Rightarrow> Inl e | Inr s' \<Rightarrow> repeat (pred_numeral k) body s')"
  by (simp add: numeral_eq_Suc)

lemmas eval_defs =
  generate_sequence_def generated_def parse_config_def method_truth_def get_duration_def
  get_rate_def rate_range_def rate_plain_def getitem_def py_int_def py_str_def
  build_sequence_list_def for_range_def loop_body_def build_base_dict_def
  get_colour_attribute_def get_material_attribute_def attribute_draw_def except_KeyError_def
  random_choice_def randbelow_def randint_def truthy_def dt_add_seconds_def MAXORDINAL_def
  single_file_def counting_rng_def example_builtins_def records_of_def repeat_numeral

lemmas stamp_defs =
  directive_def zero_pad_def dec.simps digit_char_def dt_year_def dt_month_def dt_day_def
  dt_hour_def dt_minute_def dt_second_def ord2ymd_def DAYS_BEFORE_MONTH_def DAYS_IN_MONTH_def
  Let_def end_of_january_def december_first_def year_day_month_def

lemma repeat_preserves:
  assumes step: "\<And>s s'. P s \<Longrightarrow> body s = Inr s' \<Longrightarrow> P s'"
  shows "P s \<Longrightarrow> repeat n body s = Inr s' \<Longrightarrow> P s'"
  by (induction n arbitrary: s) (auto split: sum.splits dest: step)

lemma for_range_preserves:
  assumes step: "\<And>s s'. P s \<Longrightarrow> body s = Inr s' \<Longrightarrow> P s'"
    and init: "P s" and run: "for_range n body s = Inr s'"
  shows "P s'"
proof (cases n)
  case None
  with run show ?thesis by (simp add: for_range_def)
next
  case (Some k)
  with run have "repeat (nat k) body s = Inr s'" by (simp add: for_range_def)
  then show ?thesis
    using repeat_preserves [where P = P and body = body and n = "nat k" and s = s and s' = s']
      step init by blast
qed

lemma loop_body_stamped:
  assumes "\<forall>x\<in>set (sequence_list s). stamped self x" and "loop_body L self config s = Inr s'"
  shows "\<forall>x\<in>set (sequence_list s'). stamped self x"
  using loop_body_Inr [OF assms(2)] assms(1) by auto

lemma build_sequence_list_stamped:
  assumes "build_sequence_list L self config duration rate g = Inr st"
  shows "\<forall>x\<in>set (sequence_list st). stamped self x"
proof -
  let ?P = "\<lambda>s. \<forall>x\<in>set (sequence_list s). stamped self x"
  have inner: "?P s \<Longrightarrow> for_range rate (loop_body L self config) s = Inr s' \<Longrightarrow> ?P s'" for s s'
    by (rule for_range_preserves [of ?P "loop_body L self config"]) (rule loop_body_stamped)
  have init: "?P \<lparr>id_calculator = 1, sequence_list = [], random_state = g\<rparr>" by simp
  have run: "for_range duration (for_range rate (loop_body L self config))
      \<lparr>id_calculator = 1, sequence_list = [], random_state = g\<rparr> = Inr st"
    using assms by (simp add: build_sequence_list_def)
  show ?thesis
    using for_range_preserves [where P = ?P and body = "for_range rate (loop_body L self config)",
        OF inner init run] .
qed

lemma generated_stamped:
  assumes "generated L fs self g = Inr gen"
  shows "\<forall>x\<in>set gen. stamped self x"
proof -
  from assms obtain config duration rate g1 st where
    "build_sequence_list L self config duration rate g1 = Inr st" and "gen = sequence_list st"
    by (auto simp: generated_def split: sum.splits prod.splits)
  then show ?thesis
    using build_sequence_list_stamped by blast
qed

lemma generated_resolved:
  assumes "parse_config fs self = Inr config"
    and "get_duration L config = Inr (Some d)"
    and "get_rate L config g = (Inr (Some r), g1)"
  shows "generated L fs self g =
     (case repeat (nat d * nat r) (loop_body L self config)
             \<lparr>id_calculator = 1, sequence_list = [], random_state = g1\<rparr> of
        Inl e \<Rightarrow> Inl e | Inr st \<Rightarrow> Inr (sequence_list st))"
  by (simp add: generated_def assms build_sequence_list_Some)

lemma generated_ids:
  assumes "parse_config fs self = Inr config"
    and "get_duration L config = Inr (Some d)"
    and "get_rate L config g = (Inr (Some r), g1)"
    and "generated L fs self g = Inr gen"
  shows "map item_id gen = [1..max d 0 * max r 0]"
proof -
  let ?s0 = "\<lparr>id_calculator = 1, sequence_list = [], random_state = g1\<rparr>"
  from assms(4) obtain st where
    st: "repeat (nat d * nat r) (loop_body L self config) ?s0 = Inr st" and gen: "gen = sequence_list st"
    unfolding generated_resolved [OF assms(1-3)]
    by (cases "repeat (nat d * nat r) (loop_body L self config) ?s0") simp_all
  from repeat_loop_body_Inr [OF st] obtain new where
    "sequence_list st = sequence_list ?s0 @ new"
    "map item_id new = map (\<lambda>i. id_calculator ?s0 + int i) [0..<nat d * nat r]"
    by blast
  then have "map item_id gen = map (\<lambda>i. 1 + int i) [0..<nat d * nat r]"
    using gen by simp
  then show ?thesis
    by (simp only: map_upt_upto nat_mult_max)
qed

lemma generated_returns:
  assumes "parse_config fs self = Inr config"
    and "get_duration L config = Inr (Some d)"
    and "get_rate L config g = (Inr (Some r), g1)"
    and col: "\<forall>h. \<exists>c h'. get_colour_attribute L config h = (Inr c, h')"
    and mat: "\<forall>h. \<exists>m h'. get_material_attribute L config h = (Inr m, h')"
    and lo: "0 \<le> dt_seconds (starting_timestamp self)"
    and hi: "dt_seconds (starting_timestamp self) + max d 0 * max r 0 \<le> MAXORDINAL * 86400"
  shows "\<exists>gen. generated L fs self g = Inr gen"
proof -
  let ?s0 = "\<lparr>id_calculator = 1, sequence_list = [], random_state = g1\<rparr>"
  have p1: "0 \<le> dt_seconds (starting_timestamp self) + (id_calculator ?s0 - 1)"
    using lo by simp
  have p2: "dt_seconds (starting_timestamp self) + (id_calculator ?s0 - 1) + int (nat d * nat r)
      \<le> MAXORDINAL * 86400"
    unfolding nat_mult_max using hi by simp
  have "\<exists>s'. repeat (nat d * nat r) (loop_body L self config) ?s0 = Inr s'"
    by (rule repeat_loop_body_returns [OF col mat p1 p2])
  then show ?thesis
    unfolding generated_resolved [OF assms(1-3)] by auto
qed

section \<open>Number of records\<close>

text \<open>
  With an empty colour pool the first draw raises \<^verbatim>\<open>IndexError\<close>: duration and rate resolve
  to 1 and 1, and the run ends without a record.
\<close>

theorem record_count_counterexample:
  "get_duration example_builtins empty_colour_config = Inr (Some 1)
   \<and> fst (get_rate example_builtins empty_colour_config counting_rng) = Inr (Some 1)
   \<and> generate_sequence example_builtins (single_file ''config.json'' empty_colour_config)
        \<lparr>file_path = ''config.json'', starting_timestamp = december_first\<rparr> counting_rng
      = Inl IndexError
   \<and> int (length (records_of
         (generate_sequence example_builtins (single_file ''config.json'' empty_colour_config)
            \<lparr>file_path = ''config.json'', starting_timestamp = december_first\<rparr> counting_rng)))
      \<noteq> 1 * 1"
  by (simp add: eval_defs empty_colour_config_def december_first_def)

text \<open>
  C1 (amended). For a configuration whose duration resolves to \<open>d \<ge> 0\<close> and whose rate
  resolves to \<open>r \<ge> 0\<close>, every run that reaches its output prints exactly \<open>d * r\<close> records;
  and the run does reach its output when no colour draw and no material draw raises and the
  timestamps stay within the calendar.
\<close>

theorem record_count:
  assumes parse: "parse_config fs self = Inr config"
    and dur: "get_duration L config = Inr (Some d)" and d: "0 \<le> d"
    and rate: "get_rate L config g = (Inr (Some r), g1)" and r: "0 \<le> r"
  shows "(\<forall>out. generate_sequence L fs self g = Inr out \<longrightarrow> int (length out) = d * r)
     \<and> ((\<forall>h. \<exists>c h'. get_colour_attribute L config h = (Inr c, h'))
          \<and> (\<forall>h. \<exists>m h'. get_material_attribute L config h = (Inr m, h'))
          \<and> 0 \<le> dt_seconds (starting_timestamp self)
          \<and> dt_seconds (starting_timestamp self) + d * r \<le> MAXORDINAL * 86400
        \<longrightarrow> (\<exists>out. generate_sequence L fs self g = Inr out))"
proof (intro conjI allI impI)
  fix out
  assume out: "generate_sequence L fs self g = Inr out"
  then obtain gen where gen: "generated L fs self g = Inr gen" and "out = sort_key timestamp gen"
    by (auto simp: generate_sequence_def split: sum.splits)
  then have "length out = length (map item_id gen)" by simp
  also have "\<dots> = length [1..max d 0 * max r 0]"
    by (simp only: generated_ids [OF parse dur rate gen])
  finally show "int (length out) = d * r"
    using d r by (simp add: max_def)
next
  assume "(\<forall>h. \<exists>c h'. get_colour_attribute L config h = (Inr c, h'))
          \<and> (\<forall>h. \<exists>m h'. get_material_attribute L config h = (Inr m, h'))
          \<and> 0 \<le> dt_seconds (starting_timestamp self)
          \<and> dt_seconds (starting_timestamp self) + d * r \<le> MAXORDINAL * 86400"
  then have "\<exists>gen. generated L fs self g = Inr gen"
    using d r by (intro generated_returns [OF parse dur rate]) (simp_all add: max_def)
  then show "\<exists>out. generate_sequence L fs self g = Inr out"
    by (auto simp: generate_sequence_def)
qed

theorem record_count_witness:
  "parse_config (single_file ''config.json'' two_slots_config)
       \<lparr>file_path = ''config.json'', starting_timestamp = end_of_january\<rparr> = Inr two_slots_config
   \<and> get_duration example_builtins two_slots_config = Inr (Some 2) \<and> (0::int) \<le> 2
   \<and> get_rate example_builtins two_slots_config counting_rng = (Inr (Some 1), counting_rng)
   \<and> (0::int) \<le> 1
   \<and> (\<forall>h. \<exists>c h'. get_colour_attribute example_builtins two_slots_config h = (Inr c, h'))
   \<and> (\<forall>h. \<exists>m h'. get_material_attribute example_builtins two_slots_config h = (Inr m, h'))
   \<and> 0 \<le> dt_seconds end_of_january
   \<and> dt_seconds end_of_january + 2 * 1 \<le> MAXORDINAL * 86400
   \<and> (\<exists>out. generate_sequence example_builtins (single_file ''config.json'' two_slots_config)
          \<lparr>file_path = ''config.json'', starting_timestamp = end_of_january\<rparr> counting_rng = Inr out
        \<and> int (length out) = 2 * 1)"
proof -
  let ?self = "\<lparr>file_path = ''config.json'', starting_timestamp = end_of_january\<rparr>"
  let ?fs = "single_file ''config.json'' two_slots_config"
  have parse: "parse_config ?fs ?self = Inr two_slots_config"
    by (simp add: parse_config_def method_truth_def single_file_def)
  have dur: "get_duration example_builtins two_slots_config = Inr (Some 2)"
    by (simp add: get_duration_def getitem_def py_int_def two_slots_config_def)
  have rate: "get_rate example_builtins two_slots_config counting_rng = (Inr (Some 1), counting_rng)"
    by (simp add: get_rate_def rate_range_def rate_plain_def getitem_def py_int_def
        two_slots_config_def)
  have col: "\<forall>h. \<exists>c h'. get_colour_attribute example_builtins two_slots_config h = (Inr c, h')"
    by (simp add: get_colour_attribute_def attribute_draw_def except_KeyError_def getitem_def
        random_choice_def randbelow_def two_slots_config_def)
  have mat: "\<forall>h. \<exists>m h'. get_material_attribute example_builtins two_slots_config h = (Inr m, h')"
    by (simp add: get_material_attribute_def attribute_draw_def except_KeyError_def getitem_def
        two_slots_config_def)
  have lo: "0 \<le> dt_seconds end_of_january"
    and hi: "dt_seconds end_of_january + 2 * 1 \<le> MAXORDINAL * 86400"
    by (simp_all add: end_of_january_def MAXORDINAL_def)
  have d0: "(0::int) \<le> 2" and r0: "(0::int) \<le> 1" by simp_all
  from record_count [OF parse dur d0 rate r0] col mat lo hi
  have "\<exists>out. generate_sequence example_builtins ?fs ?self counting_rng = Inr out
        \<and> int (length out) = 2 * 1"
    by auto
  with parse dur rate col mat lo hi show ?thesis by simp
qed

section \<open>Ids in generation order\<close>



lemma generated_two_slots:
  "generated example_builtins (single_file ''config.json'' two_slots_config)
       \<lparr>file_path = ''config.json'', starting_timestamp = end_of_january\<rparr> counting_rng
     = Inr [\<lparr>item_id = 1, timestamp = ''2023-31-01, 23:59:59'', colour = Some ''red'', material = None\<rparr>,
            \<lparr>item_id = 2, timestamp = ''2023-01-02, 00:00:00'', colour = None, material = None\<rparr>]"
  by (simp add: eval_defs stamp_defs two_slots_config_def)


section \<open>Order of the output\<close>

text \<open>
  C3. The printed records are in non-decreasing order of their timestamp strings, and
  records with the same timestamp string stand in the order of their generation; nothing is
  added or lost by the sort.
\<close>

theorem output_sorted_stable:
  "sorted (map timestamp (records_of (generate_sequence L fs self g)))
   \<and> (\<forall>k. filter (\<lambda>x. timestamp x = k) (records_of (generate_sequence L fs self g))
          = filter (\<lambda>x. timestamp x = k) (records_of (generated L fs self g)))
   \<and> length (records_of (generate_sequence L fs self g)) = length (records_of (generated L fs self g))"
proof (cases "generated L fs self g")
  case (Inl e)
  then show ?thesis by (simp add: generate_sequence_def records_of_def)
next
  case (Inr gen)
  then show ?thesis by (simp add: generate_sequence_def records_of_def sort_key_stable)
qed

section \<open>Calendar fields\<close>

lemma dec_length_1: "n < 10 \<Longrightarrow> length (dec n) = 1"
  by (subst dec.simps) simp

lemma dec_length_2: "n < 100 \<Longrightarrow> length (dec n) \<le> 2"
  by (subst dec.simps) (simp add: dec_length_1)

lemma dec_length_4: "n < 10000 \<Longrightarrow> length (dec n) \<le> 4"
proof -
  assume n: "n < 10000"
  have 3: "length (dec m) \<le> 3" if "m < 1000" for m
    using that by (subst dec.simps) (use dec_length_2 [of "m div 10"] in auto)
  show ?thesis
    using n by (subst dec.simps) (use 3 [of "n div 10"] dec_length_1 [of n] in auto)
qed

lemma zero_pad_length: "length (dec n) \<le> w \<Longrightarrow> length (zero_pad w n) = w"
  by (simp add: zero_pad_def)

lemma month_cases:
  fixes n :: int
  assumes "0 \<le> n" "n < 365"
  shows "nat ((n + 50) div 32) \<in> {1, 2, 3, 4, 5, 6, 7, 8, 9, 10, 11, 12}"
proof -
  have "1 \<le> (n + 50) div 32" "(n + 50) div 32 \<le> 12"
    using assms by simp_all
  then have "nat ((n + 50) div 32) \<in> {1..12}" by auto
  also have "{1..12::nat} = {1, 2, 3, 4, 5, 6, 7, 8, 9, 10, 11, 12}" by auto arith
  finally show ?thesis .
qed


lemma month_day_bounds:
  fixes n :: int
  assumes n: "0 \<le> n" "n < 365"
  shows "(let month = nat ((n + 50) div 32);
              preceding = DAYS_BEFORE_MONTH month + (if 2 < month \<and> leap then 1 else 0)
          in if n < preceding
             then 2 \<le> month \<and> month \<le> 12
               \<and> 1 \<le> n - (preceding - (DAYS_IN_MONTH (month - 1)
                      + (if month - 1 = 2 \<and> leap then 1 else 0))) + 1
               \<and> n - (preceding - (DAYS_IN_MONTH (month - 1)
                      + (if month - 1 = 2 \<and> leap then 1 else 0))) + 1 \<le> 31
             else 1 \<le> month \<and> month \<le> 12
               \<and> 1 \<le> n - preceding + 1 \<and> n - preceding + 1 \<le> 31)"
proof -
  define m where "m = nat ((n + 50) div 32)"
  have range: "int m = (n + 50) div 32"
    using n by (simp add: m_def)
  then have lo: "32 * int m \<le> n + 50" and hi: "n + 50 < 32 * int m + 32"
    by simp_all
  from month_cases [OF n] have "m \<in> {1, 2, 3, 4, 5, 6, 7, 8, 9, 10, 11, 12}"
    by (simp add: m_def)
  then show ?thesis
    unfolding Let_def m_def [symmetric]
    using lo hi n
    by (elim insertE emptyE) (simp_all add: DAYS_BEFORE_MONTH_def DAYS_IN_MONTH_def)
qed


lemma year_bound:
  fixes n0 :: int
  assumes "0 \<le> n0" "n0 \<le> 3652058"
  defines "a \<equiv> n0 div 146097" and "b \<equiv> (n0 mod 146097) div 36524"
    and "c \<equiv> ((n0 mod 146097) mod 36524) div 1461"
    and "d \<equiv> (((n0 mod 146097) mod 36524) mod 1461) div 365"
  shows "0 \<le> a \<and> 0 \<le> b \<and> 0 \<le> c \<and> 0 \<le> d
     \<and> 400 * a + 100 * b + 4 * c + d \<le> (if d = 4 \<or> b = 4 then 9999 else 9998)"
proof -
  define r1 where "r1 = n0 mod 146097"
  define r2 where "r2 = r1 mod 36524"
  define r3 where "r3 = r2 mod 1461"
  have e1: "n0 = 146097 * a + r1" and b1: "0 \<le> r1" "r1 < 146097"
    by (simp_all add: a_def r1_def)
  have e2: "r1 = 36524 * b + r2" and b2: "0 \<le> r2" "r2 < 36524"
    by (simp_all add: b_def r1_def r2_def)
  have e3: "r2 = 1461 * c + r3" and b3: "0 \<le> r3" "r3 < 1461"
    by (simp_all add: c_def r1_def r2_def r3_def)
  have e4: "365 * d \<le> r3" and b4: "0 \<le> d"
    using b3 by (simp_all add: d_def r1_def r2_def r3_def)
  have a0: "0 \<le> a" and b0: "0 \<le> b" and c0: "0 \<le> c"
    using assms(1) b1 b2 by (simp_all add: a_def b_def c_def r1_def r2_def pos_imp_zdiv_nonneg_iff)
  have a24: "a \<le> 24" and b4': "b \<le> 4" and c24: "c \<le> 24" and d4: "d \<le> 4"
    using assms(2) e1 e2 e3 e4 b1 b2 b3 a0 b0 c0 by arith+
  show ?thesis
  proof (cases "a \<le> 23")
    case True
    with a0 b0 c0 b4 b4' c24 d4 show ?thesis by (auto split: if_splits)
  next
    case False
    with a24 have a: "a = 24" by simp
    with assms(2) e1 have r1: "r1 \<le> 145730" by simp
    with e2 b2 have b3': "b \<le> 3" by arith
    show ?thesis
    proof (cases "b \<le> 2")
      case True
      with a a0 b0 c0 b4 c24 d4 show ?thesis by (auto split: if_splits)
    next
      case False
      with b3' have b: "b = 3" by simp
      with r1 e2 have r2: "r2 \<le> 36158" by simp
      show ?thesis
      proof (cases "c \<le> 23")
        case True
        with a b a0 b0 c0 b4 d4 show ?thesis by (auto split: if_splits)
      next
        case False
        with c24 have c: "c = 24" by simp
        with r2 e3 have "r3 \<le> 1094" by simp
        with e4 have "d \<le> 2" by arith
        with a b c b4 show ?thesis by simp
      qed
    qed
  qed
qed


lemma ord2ymd_bounds:
  assumes "1 \<le> ordinal" "ordinal \<le> MAXORDINAL"
  shows "1 \<le> fst (ord2ymd ordinal) \<and> fst (ord2ymd ordinal) \<le> 9999
     \<and> 1 \<le> fst (snd (ord2ymd ordinal)) \<and> fst (snd (ord2ymd ordinal)) \<le> 12
     \<and> 1 \<le> snd (snd (ord2ymd ordinal)) \<and> snd (snd (ord2ymd ordinal)) \<le> 31"
proof -
  define n0 where "n0 = ordinal - 1"
  define a where "a = n0 div 146097"
  define b where "b = (n0 mod 146097) div 36524"
  define c where "c = ((n0 mod 146097) mod 36524) div 1461"
  define d where "d = (((n0 mod 146097) mod 36524) mod 1461) div 365"
  define n where "n = (((n0 mod 146097) mod 36524) mod 1461) mod 365"
  define leap where "leap = (d = 3 \<and> (c \<noteq> 24 \<or> b = 3))"
  define m where "m = nat ((n + 50) div 32)"
  define p where "p = DAYS_BEFORE_MONTH m + (if 2 < m \<and> leap then 1 else 0)"
  define p' where "p' = p - (DAYS_IN_MONTH (m - 1) + (if m - 1 = 2 \<and> leap then 1 else 0))"
  define Y where "Y = a * 400 + 1 + b * 100 + c * 4 + d"
  define day where "day = n - p + 1"
  define day' where "day' = n - p' + 1"
  have n0: "0 \<le> n0" "n0 \<le> 3652058"
    using assms by (simp_all add: n0_def MAXORDINAL_def)
  from year_bound [OF n0]
  have y: "0 \<le> a" "0 \<le> b" "0 \<le> c" "0 \<le> d"
    "400 * a + 100 * b + 4 * c + d \<le> (if d = 4 \<or> b = 4 then 9999 else 9998)"
    by (simp_all add: a_def b_def c_def d_def)
  have Y: "1 \<le> Y" "d = 4 \<or> b = 4 \<Longrightarrow> 2 \<le> Y \<and> Y \<le> 10000"
    "\<not> (d = 4 \<or> b = 4) \<Longrightarrow> Y \<le> 9999"
    using y by (auto simp: Y_def)
  have n: "0 \<le> n" "n < 365"
    by (simp_all add: n_def)
  have md: "if n < p then 2 \<le> m \<and> m \<le> 12 \<and> 1 \<le> day' \<and> day' \<le> 31
            else 1 \<le> m \<and> m \<le> 12 \<and> 1 \<le> day \<and> day \<le> 31"
    using month_day_bounds [OF n, of leap]
    unfolding Let_def m_def [symmetric] p_def [symmetric] p'_def [symmetric]
      day_def [symmetric] day'_def [symmetric] .
  have unfold: "ord2ymd ordinal =
     (if d = 4 \<or> b = 4 then (Y - 1, 12, 31)
      else if n < p then (Y, m - 1, day') else (Y, m, day))"
    unfolding ord2ymd_def Let_def a_def b_def c_def d_def n_def leap_def n0_def m_def p_def
      p'_def Y_def day_def day'_def
    by (rule refl)
  show ?thesis
  proof (cases "d = 4 \<or> b = 4")
    case True
    with Y(2) show ?thesis unfolding unfold by auto
  next
    case False
    with Y(1,3) md show ?thesis
      unfolding unfold by (cases "n < p") auto
  qed
qed

lemma field_widths:
  assumes "0 \<le> dt_seconds t" "dt_seconds t < MAXORDINAL * 86400"
  shows "length (zero_pad 4 (dt_year t)) = 4 \<and> length (zero_pad 2 (dt_day t)) = 2
     \<and> length (zero_pad 2 (dt_month t)) = 2 \<and> length (zero_pad 2 (dt_hour t)) = 2
     \<and> length (zero_pad 2 (dt_minute t)) = 2 \<and> length (zero_pad 2 (dt_second t)) = 2"
proof -
  have ord: "1 \<le> dt_seconds t div 86400 + 1" "dt_seconds t div 86400 + 1 \<le> MAXORDINAL"
    using assms by (simp_all add: MAXORDINAL_def)
  from ord2ymd_bounds [OF ord]
  have "dt_year t < 10000" "dt_month t < 100" "dt_day t < 100"
    by (auto simp: dt_year_def dt_month_def dt_day_def)
  moreover have "dt_hour t < 100" "dt_minute t < 100" "dt_second t < 100"
    using assms(1) by (simp_all add: dt_hour_def dt_minute_def dt_second_def)
  ultimately show ?thesis
    by (simp add: zero_pad_length dec_length_2 dec_length_4)
qed

lemma year_day_month_length:
  assumes "0 \<le> dt_seconds t" "dt_seconds t < MAXORDINAL * 86400"
  shows "length (year_day_month t) = 20"
  using field_widths [OF assms] by (simp add: year_day_month_def)

section \<open>Timestamps\<close>

lemma stamped_plus:
  "stamped self x \<Longrightarrow>
     timestamp x = year_day_month
       ((starting_timestamp self)\<lparr>dt_seconds := dt_seconds (starting_timestamp self) + (item_id x - 1)\<rparr>)"
  by (auto simp: stamped_def dt_add_seconds_def split: sum.splits if_splits)

text \<open>
  C4. A record built for id \<open>k\<close> carries that id and the timestamp of the start time plus
  \<open>k - 1\<close> seconds, written as the year in four digits, the day in two, the month in two,
  then hours, minutes and seconds (\<^verbatim>\<open>YYYY-DD-MM, HH:MM:SS\<close>, twenty characters); the
  record is built whenever that time lies within the calendar; and every record of a
  generated list has the timestamp that its id calls for.
\<close>

theorem record_timestamp:
  "(build_base_dict self k = Inr b \<longrightarrow>
      item_id b = k
      \<and> (\<exists>ts. dt_seconds ts = dt_seconds (starting_timestamp self) + (k - 1)
            \<and> timestamp b =
                zero_pad 4 (dt_year ts) @ ''-'' @ zero_pad 2 (dt_day ts) @ ''-''
                  @ zero_pad 2 (dt_month ts) @ '', '' @ zero_pad 2 (dt_hour ts) @ '':''
                  @ zero_pad 2 (dt_minute ts) @ '':'' @ zero_pad 2 (dt_second ts)
            \<and> length (zero_pad 4 (dt_year ts)) = 4 \<and> length (zero_pad 2 (dt_day ts)) = 2
            \<and> length (zero_pad 2 (dt_month ts)) = 2 \<and> length (timestamp b) = 20))
   \<and> (0 \<le> dt_seconds (starting_timestamp self) + (k - 1)
        \<and> dt_seconds (starting_timestamp self) + (k - 1) < MAXORDINAL * 86400
      \<longrightarrow> (\<exists>b. build_base_dict self k = Inr b))
   \<and> (generated L fs self g = Inr gen \<longrightarrow>
        (\<forall>x\<in>set gen. timestamp x = year_day_month
           ((starting_timestamp self)
              \<lparr>dt_seconds := dt_seconds (starting_timestamp self) + (item_id x - 1)\<rparr>)))"
proof -
  have built: "item_id b = k
      \<and> (\<exists>ts. dt_seconds ts = dt_seconds (starting_timestamp self) + (k - 1)
            \<and> timestamp b =
                zero_pad 4 (dt_year ts) @ ''-'' @ zero_pad 2 (dt_day ts) @ ''-''
                  @ zero_pad 2 (dt_month ts) @ '', '' @ zero_pad 2 (dt_hour ts) @ '':''
                  @ zero_pad 2 (dt_minute ts) @ '':'' @ zero_pad 2 (dt_second ts)
            \<and> length (zero_pad 4 (dt_year ts)) = 4 \<and> length (zero_pad 2 (dt_day ts)) = 2
            \<and> length (zero_pad 2 (dt_month ts)) = 2 \<and> length (timestamp b) = 20)"
    if b: "build_base_dict self k = Inr b"
  proof -
    from b obtain ts where ts: "dt_add_seconds (starting_timestamp self) (k - 1) = Inr ts"
      and b': "b = \<lparr>item_id = k, timestamp = year_day_month ts, colour = None, material = None\<rparr>"
      unfolding build_base_dict_Inr by blast
    from ts have sec: "dt_seconds ts = dt_seconds (starting_timestamp self) + (k - 1)"
      and range: "0 \<le> dt_seconds ts" "dt_seconds ts < MAXORDINAL * 86400"
      by (auto simp: dt_add_seconds_def split: if_splits)
    have "timestamp b =
                zero_pad 4 (dt_year ts) @ ''-'' @ zero_pad 2 (dt_day ts) @ ''-''
                  @ zero_pad 2 (dt_month ts) @ '', '' @ zero_pad 2 (dt_hour ts) @ '':''
                  @ zero_pad 2 (dt_minute ts) @ '':'' @ zero_pad 2 (dt_second ts)"
      by (simp add: b' year_day_month_def)
    moreover have "length (timestamp b) = 20"
      by (simp add: b' year_day_month_length [OF range])
    ultimately show ?thesis
      using sec field_widths [OF range] b' by (intro conjI exI [of _ ts]) simp_all
  qed
  have returns: "\<exists>b. build_base_dict self k = Inr b"
    if "0 \<le> dt_seconds (starting_timestamp self) + (k - 1)
        \<and> dt_seconds (starting_timestamp self) + (k - 1) < MAXORDINAL * 86400"
    using that by (simp add: build_base_dict_def dt_add_seconds_def)
  have run: "\<forall>x\<in>set gen. timestamp x = year_day_month
           ((starting_timestamp self)
              \<lparr>dt_seconds := dt_seconds (starting_timestamp self) + (item_id x - 1)\<rparr>)"
    if "generated L fs self g = Inr gen"
  proof -
    from that have "\<forall>x\<in>set gen. stamped self x" by (rule generated_stamped)
    then show ?thesis by (blast intro: stamped_plus)
  qed
  from built returns run show ?thesis by blast
qed

lemma build_base_dict_december:
  "build_base_dict \<lparr>file_path = ''config.json'', starting_timestamp = december_first\<rparr> 2
     = Inr \<lparr>item_id = 2, timestamp = ''2023-01-12, 13:01:21'', colour = None, material = None\<rparr>"
  by (simp add: build_base_dict_def dt_add_seconds_def MAXORDINAL_def stamp_defs)

theorem record_timestamp_witness:
  "build_base_dict \<lparr>file_path = ''config.json'', starting_timestamp = december_first\<rparr> 2
     = Inr \<lparr>item_id = 2, timestamp = ''2023-01-12, 13:01:21'', colour = None, material = None\<rparr>
   \<and> 0 \<le> dt_seconds december_first + (2 - 1)
   \<and> dt_seconds december_first + (2 - 1) < MAXORDINAL * 86400
   \<and> generated example_builtins (single_file ''config.json'' two_slots_config)
       \<lparr>file_path = ''config.json'', starting_timestamp = end_of_january\<rparr> counting_rng
     = Inr [\<lparr>item_id = 1, timestamp = ''2023-31-01, 23:59:59'', colour = Some ''red'', material = None\<rparr>,
            \<lparr>item_id = 2, timestamp = ''2023-01-02, 00:00:00'', colour = None, material = None\<rparr>]
   \<and> ''2023-01-02, 00:00:00'' = year_day_month (end_of_january\<lparr>dt_seconds := dt_seconds end_of_january + (2 - 1)\<rparr>)
   \<and> (\<exists>ts. dt_seconds ts = dt_seconds december_first + (2 - 1)
         \<and> ''2023-01-12, 13:01:21'' =
                zero_pad 4 (dt_year ts) @ ''-'' @ zero_pad 2 (dt_day ts) @ ''-''
                  @ zero_pad 2 (dt_month ts) @ '', '' @ zero_pad 2 (dt_hour ts) @ '':''
                  @ zero_pad 2 (dt_minute ts) @ '':'' @ zero_pad 2 (dt_second ts))"
proof -
  let ?dec = "\<lparr>file_path = ''config.json'', starting_timestamp = december_first\<rparr>"
  let ?jan = "\<lparr>file_path = ''config.json'', starting_timestamp = end_of_january\<rparr>"
  note b = build_base_dict_december
  note gen = generated_two_slots
  have range: "0 \<le> dt_seconds december_first + (2 - 1)"
    "dt_seconds december_first + (2 - 1) < MAXORDINAL * 86400"
    by (simp_all add: december_first_def MAXORDINAL_def)
  from record_timestamp [where self = ?dec and k = 2
      and b = "\<lparr>item_id = 2, timestamp = ''2023-01-12, 13:01:21'', colour = None, material = None\<rparr>",
      THEN conjunct1, THEN mp, OF b]
  have one: "\<exists>ts. dt_seconds ts = dt_seconds december_first + (2 - 1)
         \<and> ''2023-01-12, 13:01:21'' =
                zero_pad 4 (dt_year ts) @ ''-'' @ zero_pad 2 (dt_day ts) @ ''-''
                  @ zero_pad 2 (dt_month ts) @ '', '' @ zero_pad 2 (dt_hour ts) @ '':''
                  @ zero_pad 2 (dt_minute ts) @ '':'' @ zero_pad 2 (dt_second ts)"
    by auto
  from record_timestamp [where self = ?jan and L = example_builtins
      and fs = "single_file ''config.json'' two_slots_config" and g = counting_rng
      and gen = "[\<lparr>item_id = 1, timestamp = ''2023-31-01, 23:59:59'', colour = Some ''red'', material = None\<rparr>,
            \<lparr>item_id = 2, timestamp = ''2023-01-02, 00:00:00'', colour = None, material = None\<rparr>]",
      THEN conjunct2, THEN conjunct2, THEN mp, OF gen]
  have two: "''2023-01-02, 00:00:00'' = year_day_month (end_of_january\<lparr>dt_seconds := dt_seconds end_of_january + (2 - 1)\<rparr>)"
    by simp
  from b range gen one two show ?thesis by simp
qed

section \<open>Loading the configuration\<close>

lemma parse_config_outcome:
  "parse_config fs self =
     (case fs (file_path self) of
        Loaded config_dict \<Rightarrow> Inr config_dict
      | _ \<Rightarrow> Inl (Exception ''Please provide valid json file.''))"
  by (simp add: parse_config_def method_truth_def file_exception_def split: file_outcome.splits)

text \<open>
  C5. The path \<^verbatim>\<open>config.txt\<close> fails the extension check, and yet a file of that name
  holding \<^verbatim>\<open>{"duration": 1, "rate": 1}\<close> is loaded and one record is printed:
  \<open>parse_config\<close> tests the method object, never the result of the check.
\<close>

theorem wrong_extension_is_loaded:
  "\<not> check_file_format \<lparr>file_path = ''config.txt'', starting_timestamp = december_first\<rparr>
   \<and> parse_config (single_file ''config.txt'' plain_config)
        \<lparr>file_path = ''config.txt'', starting_timestamp = december_first\<rparr> = Inr plain_config
   \<and> generate_sequence example_builtins (single_file ''config.txt'' plain_config)
        \<lparr>file_path = ''config.txt'', starting_timestamp = december_first\<rparr> counting_rng
      = Inr [\<lparr>item_id = 1, timestamp = ''2023-01-12, 13:01:20'', colour = None, material = None\<rparr>]"
proof -
  have "\<not> check_file_format \<lparr>file_path = ''config.txt'', starting_timestamp = december_first\<rparr>"
    by (simp add: check_file_format_def upper_def upper_char_def)
  moreover have "generate_sequence example_builtins (single_file ''config.txt'' plain_config)
        \<lparr>file_path = ''config.txt'', starting_timestamp = december_first\<rparr> counting_rng
      = Inr [\<lparr>item_id = 1, timestamp = ''2023-01-12, 13:01:20'', colour = None, material = None\<rparr>]"
    by (simp add: eval_defs stamp_defs plain_config_def)
  ultimately show ?thesis
    by (simp add: parse_config_outcome single_file_def)
qed

section \<open>A configuration without a duration\<close>

lemma get_duration_missing:
  "map_of kvs ''duration'' = None \<Longrightarrow> get_duration L (JObj kvs) = Inr None"
  by (simp add: get_duration_def getitem_def)

text \<open>
  C6. For \<^verbatim>\<open>{"rate": 1}\<close> the method \<open>get_duration\<close> raises nothing and returns \<^verbatim>\<open>None\<close>;
  the run then ends at \<^verbatim>\<open>range(None)\<close> with a \<^verbatim>\<open>TypeError\<close>, having printed nothing.
\<close>

theorem missing_duration_is_silent:
  "get_duration example_builtins no_duration_config = Inr None
   \<and> generate_sequence example_builtins (single_file ''config.json'' no_duration_config)
        \<lparr>file_path = ''config.json'', starting_timestamp = december_first\<rparr> counting_rng
      = Inl TypeError
   \<and> records_of (generate_sequence example_builtins (single_file ''config.json'' no_duration_config)
        \<lparr>file_path = ''config.json'', starting_timestamp = december_first\<rparr> counting_rng) = []"
  by (simp add: eval_defs no_duration_config_def)

section \<open>Drawing from a pool\<close>

lemma attribute_draw_declared:
  "declared_values name config = Some v \<Longrightarrow>
     attribute_draw L name config g =
       (case random_choice v g of
          (Inl e, g') \<Rightarrow> (Inl e, g')
        | (Inr x, g') \<Rightarrow> (Inr (py_str L x), g'))"
  by (auto simp: declared_values_def attribute_draw_def getitem_def
      split: json.splits option.splits)

lemma attribute_draw_empty:
  "declared_values name config = Some (JList []) \<Longrightarrow>
     except_KeyError (attribute_draw L name config g) = (Inl IndexError, g)"
  by (simp add: attribute_draw_declared random_choice_def except_KeyError_def)

lemma attribute_draw_list:
  "declared_values name config = Some (JList xs) \<Longrightarrow> xs \<noteq> [] \<Longrightarrow>
     except_KeyError (attribute_draw L name config g) =
       (Inr (Some (py_str L (xs ! (g 0 mod length xs)))), \<lambda>i. g (Suc i))"
  by (simp add: attribute_draw_declared random_choice_def randbelow_def except_KeyError_def)

text \<open>
  C7. When the configuration declares \<^verbatim>\<open>attributes.colour.values\<close> as the empty list, the
  colour draw raises \<^verbatim>\<open>IndexError\<close> instead of returning \<^verbatim>\<open>None\<close>; likewise for material;
  and in either case the loop body raises, so that no record is appended.
\<close>

theorem empty_pool_raises:
  "(declared_values ''colour'' config = Some (JList []) \<longrightarrow>
      get_colour_attribute L config g = (Inl IndexError, g))
   \<and> (declared_values ''material'' config = Some (JList []) \<longrightarrow>
      get_material_attribute L config g = (Inl IndexError, g))
   \<and> (declared_values ''colour'' config = Some (JList [])
        \<or> declared_values ''material'' config = Some (JList []) \<longrightarrow>
      (\<exists>e. loop_body L self config st = Inl e))"
proof (intro conjI impI)
  assume "declared_values ''colour'' config = Some (JList [])"
  then show "get_colour_attribute L config g = (Inl IndexError, g)"
    by (simp add: get_colour_attribute_def attribute_draw_empty)
next
  assume "declared_values ''material'' config = Some (JList [])"
  then show "get_material_attribute L config g = (Inl IndexError, g)"
    by (simp add: get_material_attribute_def attribute_draw_empty)
next
  assume "declared_values ''colour'' config = Some (JList [])
        \<or> declared_values ''material'' config = Some (JList [])"
  then have "loop_body L self config st = Inr st' \<Longrightarrow> False" for st'
    by (erule_tac loop_body_Inr_cases)
      (auto simp: get_colour_attribute_def get_material_attribute_def attribute_draw_empty)
  then show "\<exists>e. loop_body L self config st = Inl e"
    by (cases "loop_body L self config st") auto
qed

theorem empty_pool_raises_witness:
  "declared_values ''colour'' empty_pools_config = Some (JList [])
   \<and> declared_values ''material'' empty_pools_config = Some (JList [])
   \<and> get_colour_attribute example_builtins empty_pools_config counting_rng
       = (Inl IndexError, counting_rng)
   \<and> get_material_attribute example_builtins empty_pools_config counting_rng
       = (Inl IndexError, counting_rng)
   \<and> (\<exists>e. loop_body example_builtins
         \<lparr>file_path = ''config.json'', starting_timestamp = december_first\<rparr> empty_pools_config
         \<lparr>id_calculator = 1, sequence_list = [], random_state = counting_rng\<rparr> = Inl e)"
proof -
  have c: "declared_values ''colour'' empty_pools_config = Some (JList [])"
    and m: "declared_values ''material'' empty_pools_config = Some (JList [])"
    by (simp_all add: declared_values_def empty_pools_config_def)
  from c m empty_pool_raises [of empty_pools_config example_builtins counting_rng
      "\<lparr>file_path = ''config.json'', starting_timestamp = december_first\<rparr>"
      "\<lparr>id_calculator = 1, sequence_list = [], random_state = counting_rng\<rparr>"]
  show ?thesis by simp
qed

section \<open>Empty strings in a pool\<close>

text \<open>
  C9. If the colour pool is a non-empty list and the element drawn for a record is the
  empty string, the record appended by the loop body has no colour field, although the pool
  is declared; likewise for material, whose draw follows the colour draw. In general a field
  is present exactly when the string returned by its draw is not empty.
\<close>

theorem empty_string_omits_field:
  "(declared_values ''colour'' config = Some (JList xs) \<and> xs \<noteq> []
      \<and> xs ! (random_state st 0 mod length xs) = JStr []
      \<and> loop_body L self config st = Inr st'
    \<longrightarrow> colour (last (sequence_list st')) = None)
   \<and> (declared_values ''material'' config = Some (JList ys) \<and> ys \<noteq> []
      \<and> snd (get_colour_attribute L config (random_state st)) = g1
      \<and> ys ! (g1 0 mod length ys) = JStr []
      \<and> loop_body L self config st = Inr st'
    \<longrightarrow> material (last (sequence_list st')) = None)
   \<and> (get_colour_attribute L config (random_state st) = (Inr col, g1)
      \<and> get_material_attribute L config g1 = (Inr mat, g2)
      \<and> loop_body L self config st = Inr st'
    \<longrightarrow> colour (last (sequence_list st')) = (if col = Some [] then None else col)
      \<and> material (last (sequence_list st')) = (if mat = Some [] then None else mat))"
proof -
  have colour_case: "colour (last (sequence_list st')) = None"
    if a: "declared_values ''colour'' config = Some (JList xs)" "xs \<noteq> []"
      "xs ! (random_state st 0 mod length xs) = JStr []"
      and run: "loop_body L self config st = Inr st'"
  proof -
    from a have "get_colour_attribute L config (random_state st)
        = (Inr (Some []), \<lambda>i. random_state st (Suc i))"
      by (simp add: get_colour_attribute_def attribute_draw_list py_str_def)
    with run show ?thesis
      by (elim loop_body_Inr_cases) (simp add: truthy_def)
  qed
  have material_case: "material (last (sequence_list st')) = None"
    if a: "declared_values ''material'' config = Some (JList ys)" "ys \<noteq> []"
      "snd (get_colour_attribute L config (random_state st)) = g1"
      "ys ! (g1 0 mod length ys) = JStr []"
      and run: "loop_body L self config st = Inr st'"
  proof -
    from a have "get_material_attribute L config g1 = (Inr (Some []), \<lambda>i. g1 (Suc i))"
      by (simp add: get_material_attribute_def attribute_draw_list py_str_def)
    with run a(3) show ?thesis
      by (elim loop_body_Inr_cases) (auto simp: truthy_def)
  qed
  have general: "colour (last (sequence_list st')) = (if col = Some [] then None else col)
      \<and> material (last (sequence_list st')) = (if mat = Some [] then None else mat)"
    if a: "get_colour_attribute L config (random_state st) = (Inr col, g1)"
      "get_material_attribute L config g1 = (Inr mat, g2)"
      and run: "loop_body L self config st = Inr st'"
    using run a by (elim loop_body_Inr_cases) (auto simp: truthy_def split: option.splits)
  from colour_case material_case general show ?thesis by blast
qed

theorem empty_string_omits_field_witness:
  "declared_values ''colour'' blank_pools_config = Some (JList [JStr ''red'', JStr []])
   \<and> [JStr ''red'', JStr []] \<noteq> []
   \<and> [JStr ''red'', JStr []] ! (constant_rng 1 0 mod length [JStr ''red'', JStr []]) = JStr []
   \<and> declared_values ''material'' blank_pools_config = Some (JList [JStr [], JStr ''paper''])
   \<and> [JStr [], JStr ''paper''] \<noteq> []
   \<and> snd (get_colour_attribute example_builtins blank_pools_config (constant_rng 0)) = constant_rng 0
   \<and> [JStr [], JStr ''paper''] ! (constant_rng 0 0 mod length [JStr [], JStr ''paper'']) = JStr []
   \<and> loop_body example_builtins \<lparr>file_path = ''config.json'', starting_timestamp = december_first\<rparr>
        blank_pools_config \<lparr>id_calculator = 1, sequence_list = [], random_state = constant_rng 1\<rparr>
      = Inr \<lparr>id_calculator = 2,
            sequence_list = [\<lparr>item_id = 1, timestamp = ''2023-01-12, 13:01:20'',
                              colour = None, material = Some ''paper''\<rparr>],
            random_state = constant_rng 1\<rparr>
   \<and> loop_body example_builtins \<lparr>file_path = ''config.json'', starting_timestamp = december_first\<rparr>
        blank_pools_config \<lparr>id_calculator = 1, sequence_list = [], random_state = constant_rng 0\<rparr>
      = Inr \<lparr>id_calculator = 2,
            sequence_list = [\<lparr>item_id = 1, timestamp = ''2023-01-12, 13:01:20'',
                              colour = Some ''red'', material = None\<rparr>],
            random_state = constant_rng 0\<rparr>
   \<and> colour (last [\<lparr>item_id = 1, timestamp = ''2023-01-12, 13:01:20'',
                     colour = None, material = Some ''paper''\<rparr>]) = None
   \<and> material (last [\<lparr>item_id = 1, timestamp = ''2023-01-12, 13:01:20'',
                     colour = Some ''red'', material = None\<rparr>]) = None"
proof -
  let ?self = "\<lparr>file_path = ''config.json'', starting_timestamp = december_first\<rparr>"
  have shift: "(\<lambda>i. constant_rng k (Suc i)) = constant_rng k" for k
    by (rule ext) (simp add: constant_rng_def)
  have c: "declared_values ''colour'' blank_pools_config = Some (JList [JStr ''red'', JStr []])"
    and m: "declared_values ''material'' blank_pools_config = Some (JList [JStr [], JStr ''paper''])"
    by (simp_all add: declared_values_def blank_pools_config_def)
  have draws: "[JStr ''red'', JStr []] ! (constant_rng 1 0 mod length [JStr ''red'', JStr []]) = JStr []"
    "[JStr [], JStr ''paper''] ! (constant_rng 0 0 mod length [JStr [], JStr ''paper'']) = JStr []"
    by (simp_all add: constant_rng_def)
  have g1: "snd (get_colour_attribute example_builtins blank_pools_config (constant_rng 0)) = constant_rng 0"
    by (simp add: get_colour_attribute_def attribute_draw_list [OF c] shift)
  have run1: "loop_body example_builtins ?self blank_pools_config
        \<lparr>id_calculator = 1, sequence_list = [], random_state = constant_rng 1\<rparr>
      = Inr \<lparr>id_calculator = 2,
            sequence_list = [\<lparr>item_id = 1, timestamp = ''2023-01-12, 13:01:20'',
                              colour = None, material = Some ''paper''\<rparr>],
            random_state = constant_rng 1\<rparr>"
    by (simp add: loop_body_def build_base_dict_def dt_add_seconds_def MAXORDINAL_def stamp_defs
        get_colour_attribute_def get_material_attribute_def attribute_draw_list [OF c]
        attribute_draw_list [OF m] shift py_str_def truthy_def)
      (simp add: constant_rng_def)
  have run0: "loop_body example_builtins ?self blank_pools_config
        \<lparr>id_calculator = 1, sequence_list = [], random_state = constant_rng 0\<rparr>
      = Inr \<lparr>id_calculator = 2,
            sequence_list = [\<lparr>item_id = 1, timestamp = ''2023-01-12, 13:01:20'',
                              colour = Some ''red'', material = None\<rparr>],
            random_state = constant_rng 0\<rparr>"
    by (simp add: loop_body_def build_base_dict_def dt_add_seconds_def MAXORDINAL_def stamp_defs
        get_colour_attribute_def get_material_attribute_def attribute_draw_list [OF c]
        attribute_draw_list [OF m] shift py_str_def truthy_def)
      (simp add: constant_rng_def)
  from empty_string_omits_field [where config = blank_pools_config and L = example_builtins
      and self = ?self and xs = "[JStr ''red'', JStr []]"
      and st = "\<lparr>id_calculator = 1, sequence_list = [], random_state = constant_rng 1\<rparr>"
      and st' = "\<lparr>id_calculator = 2,
            sequence_list = [\<lparr>item_id = 1, timestamp = ''2023-01-12, 13:01:20'',
                              colour = None, material = Some ''paper''\<rparr>],
            random_state = constant_rng 1\<rparr>"]
    c draws(1) run1
  have one: "colour (last [\<lparr>item_id = 1, timestamp = ''2023-01-12, 13:01:20'',
                     colour = None, material = Some ''paper''\<rparr>]) = None"
    by simp
  from empty_string_omits_field [where config = blank_pools_config and L = example_builtins
      and self = ?self and ys = "[JStr [], JStr ''paper'']" and ?g1.0 = "constant_rng 0"
      and st = "\<lparr>id_calculator = 1, sequence_list = [], random_state = constant_rng 0\<rparr>"
      and st' = "\<lparr>id_calculator = 2,
            sequence_list = [\<lparr>item_id = 1, timestamp = ''2023-01-12, 13:01:20'',
                              colour = Some ''red'', material = None\<rparr>],
            random_state = constant_rng 0\<rparr>"]
    m draws(2) g1 run0
  have two: "material (last [\<lparr>item_id = 1, timestamp = ''2023-01-12, 13:01:20'',
                     colour = Some ''red'', material = None\<rparr>]) = None"
    by simp
  from c m draws g1 run1 run0 one two show ?thesis by simp
qed

section \<open>A rate range with equal bounds\<close>

lemma get_rate_equal_bounds:
  assumes "map_of kvs ''rate'' = Some (JObj ro)"
    and "map_of ro ''min'' = Some (JInt n)" and "map_of ro ''max'' = Some (JInt n)"
  shows "get_rate L (JObj kvs) g = (Inr (Some n), \<lambda>i. g (Suc i))"
  using assms
  by (simp add: get_rate_def rate_range_def getitem_def py_int_def randint_def randbelow_def)

lemma get_rate_plain:
  assumes "map_of kvs ''rate'' = Some (JInt n)"
  shows "get_rate L (JObj kvs) g = (Inr (Some n), g)"
  using assms
  by (simp add: get_rate_def rate_range_def rate_plain_def getitem_def py_int_def)

lemma loop_body_cong_attributes:
  assumes "map_of kvs1 ''attributes'' = map_of kvs2 ''attributes''"
  shows "loop_body L self (JObj kvs1) = loop_body L self (JObj kvs2)"
proof -
  have draw: "attribute_draw L name (JObj kvs1) = attribute_draw L name (JObj kvs2)" for name
    using assms by (intro ext) (simp add: attribute_draw_def getitem_def)
  have col: "get_colour_attribute L (JObj kvs1) = get_colour_attribute L (JObj kvs2)"
    by (intro ext) (simp add: get_colour_attribute_def draw)
  have mat: "get_material_attribute L (JObj kvs1) = get_material_attribute L (JObj kvs2)"
    by (intro ext) (simp add: get_material_attribute_def draw)
  show ?thesis
    unfolding loop_body_def col mat by (rule refl)
qed

text \<open>
  C8. Let two configurations agree on every key but \<^verbatim>\<open>rate\<close>, the first giving it as an
  object whose \<^verbatim>\<open>min\<close> and \<^verbatim>\<open>max\<close> are the same integer \<open>n\<close>, the second as the integer
  \<open>n\<close>. Then the rate resolves to \<open>n\<close> in both, and the two runs are the same: the first
  behaves on a random source as the second does on that source after its first draw, the one
  that \<^verbatim>\<open>randint(n, n)\<close> consumed.
\<close>

theorem equal_bounds_rate:
  assumes range: "map_of kvs1 ''rate'' = Some (JObj ro)"
    and lo: "map_of ro ''min'' = Some (JInt n)" and hi: "map_of ro ''max'' = Some (JInt n)"
    and plain: "map_of kvs2 ''rate'' = Some (JInt n)"
    and others: "\<forall>k. k \<noteq> ''rate'' \<longrightarrow> map_of kvs1 k = map_of kvs2 k"
    and file1: "fs1 (file_path self) = Loaded (JObj kvs1)"
    and file2: "fs2 (file_path self) = Loaded (JObj kvs2)"
  shows "fst (get_rate L (JObj kvs1) g) = Inr (Some n)
     \<and> fst (get_rate L (JObj kvs2) g') = Inr (Some n)
     \<and> generate_sequence L fs1 self g = generate_sequence L fs2 self (\<lambda>i. g (Suc i))"
proof -
  have r1: "get_rate L (JObj kvs1) g = (Inr (Some n), \<lambda>i. g (Suc i))"
    by (rule get_rate_equal_bounds [OF range lo hi])
  have r2: "get_rate L (JObj kvs2) h = (Inr (Some n), h)" for h
    by (rule get_rate_plain [OF plain])
  from others have "map_of kvs1 ''duration'' = map_of kvs2 ''duration''"
    and attrs: "map_of kvs1 ''attributes'' = map_of kvs2 ''attributes''"
    by simp_all
  then have d: "get_duration L (JObj kvs1) = get_duration L (JObj kvs2)"
    by (simp add: get_duration_def getitem_def)
  have "generated L fs1 self g = generated L fs2 self (\<lambda>i. g (Suc i))"
    by (cases "get_duration L (JObj kvs2)")
      (simp_all add: generated_def parse_config_outcome file1 file2 d r1 r2
        build_sequence_list_def loop_body_cong_attributes [OF attrs])
  then show ?thesis
    by (simp add: generate_sequence_def r1 r2)
qed

theorem equal_bounds_rate_witness:
  "map_of range_rate_pairs ''rate'' = Some (JObj [(''min'', JInt 2), (''max'', JInt 2)])
   \<and> map_of [(''min'', JInt 2), (''max'', JInt 2)] ''min'' = Some (JInt 2)
   \<and> map_of [(''min'', JInt 2), (''max'', JInt 2)] ''max'' = Some (JInt 2)
   \<and> map_of plain_rate_pairs ''rate'' = Some (JInt 2)
   \<and> (\<forall>k. k = ''rate'' \<or> map_of range_rate_pairs k = map_of plain_rate_pairs k)
   \<and> single_file ''config.json'' (JObj range_rate_pairs) ''config.json'' = Loaded (JObj range_rate_pairs)
   \<and> single_file ''config.json'' (JObj plain_rate_pairs) ''config.json'' = Loaded (JObj plain_rate_pairs)
   \<and> fst (get_rate example_builtins (JObj range_rate_pairs) (constant_rng 1)) = Inr (Some 2)
   \<and> fst (get_rate example_builtins (JObj plain_rate_pairs) (constant_rng 1)) = Inr (Some 2)
   \<and> generate_sequence example_builtins (single_file ''config.json'' (JObj range_rate_pairs))
        \<lparr>file_path = ''config.json'', starting_timestamp = december_first\<rparr> (constant_rng 1)
      = Inr [\<lparr>item_id = 1, timestamp = ''2023-01-12, 13:01:20'', colour = Some ''blue'', material = None\<rparr>,
             \<lparr>item_id = 2, timestamp = ''2023-01-12, 13:01:21'', colour = Some ''blue'', material = None\<rparr>]
   \<and> generate_sequence example_builtins (single_file ''config.json'' (JObj plain_rate_pairs))
        \<lparr>file_path = ''config.json'', starting_timestamp = december_first\<rparr> (constant_rng 1)
      = Inr [\<lparr>item_id = 1, timestamp = ''2023-01-12, 13:01:20'', colour = Some ''blue'', material = None\<rparr>,
             \<lparr>item_id = 2, timestamp = ''2023-01-12, 13:01:21'', colour = Some ''blue'', material = None\<rparr>]"
proof -
  let ?self = "\<lparr>file_path = ''config.json'', starting_timestamp = december_first\<rparr>"
  have shift: "(\<lambda>i. constant_rng k (Suc i)) = constant_rng k" for k
    by (rule ext) (simp add: constant_rng_def)
  have range: "map_of range_rate_pairs ''rate'' = Some (JObj [(''min'', JInt 2), (''max'', JInt 2)])"
    and plain: "map_of plain_rate_pairs ''rate'' = Some (JInt 2)"
    and others: "\<forall>k. k \<noteq> ''rate'' \<longrightarrow> map_of range_rate_pairs k = map_of plain_rate_pairs k"
    by (simp_all add: range_rate_pairs_def plain_rate_pairs_def)
  have lo: "map_of [(''min'', JInt 2), (''max'', JInt 2)] ''min'' = Some (JInt 2)"
    and hi: "map_of [(''min'', JInt 2), (''max'', JInt 2)] ''max'' = Some (JInt 2)"
    by simp_all
  have file1: "single_file ''config.json'' (JObj range_rate_pairs) (file_path ?self) = Loaded (JObj range_rate_pairs)"
    and file2: "single_file ''config.json'' (JObj plain_rate_pairs) (file_path ?self) = Loaded (JObj plain_rate_pairs)"
    by (simp_all add: single_file_def)
  have out: "generate_sequence example_builtins (single_file ''config.json'' (JObj plain_rate_pairs))
        ?self (constant_rng 1)
      = Inr [\<lparr>item_id = 1, timestamp = ''2023-01-12, 13:01:20'', colour = Some ''blue'', material = None\<rparr>,
             \<lparr>item_id = 2, timestamp = ''2023-01-12, 13:01:21'', colour = Some ''blue'', material = None\<rparr>]"
    by (simp add: eval_defs stamp_defs plain_rate_pairs_def shift) (simp add: constant_rng_def)
  from equal_bounds_rate [where ?kvs1.0 = range_rate_pairs and ?kvs2.0 = plain_rate_pairs
      and ro = "[(''min'', JInt 2), (''max'', JInt 2)]" and n = 2 and self = ?self
      and ?fs1.0 = "single_file ''config.json'' (JObj range_rate_pairs)"
      and ?fs2.0 = "single_file ''config.json'' (JObj plain_rate_pairs)"
      and L = example_builtins and g = "constant_rng 1" and g' = "constant_rng 1",
      OF range lo hi plain others file1 file2]
  have "fst (get_rate example_builtins (JObj range_rate_pairs) (constant_rng 1)) = Inr (Some 2)"
    and "fst (get_rate example_builtins (JObj plain_rate_pairs) (constant_rng 1)) = Inr (Some 2)"
    and "generate_sequence example_builtins (single_file ''config.json'' (JObj range_rate_pairs))
        ?self (constant_rng 1)
      = generate_sequence example_builtins (single_file ''config.json'' (JObj plain_rate_pairs))
        ?self (constant_rng 1)"
    by (simp_all add: shift)
  with range lo hi plain others file1 file2 out show ?thesis by auto
qed

end
